theory Spec2Isabelle
  imports Main
begin

section \<open>The Mediator escrow contract (src/mediator.py)\<close>

text \<open>
  The contract is a SmartPy class: its storage is a record of five fields, each entry
  point reads the storage, the sender and the attached amount, checks its conditions with
  \<^verbatim>\<open>sp.verify\<close> and then assigns fields and emits transfers with \<^verbatim>\<open>sp.send\<close>.
  An entry point is modelled as a function from its parameters, the call context and the
  storage to either the error of the first failing check or the new storage together with
  the list of transfers, in the order in which they are emitted.
\<close>

subsection \<open>Data\<close>

text \<open>Addresses are the string literals given to \<^verbatim>\<open>sp.address\<close>.\<close>

type_synonym address = string

text \<open>
  Amounts of the chain's currency, counted in its smallest unit (mutez). The conversion
  \<^verbatim>\<open>sp.utils.nat_to_mutez\<close> is the library's change of type from a natural number
  to an amount of that many units; both sides are natural numbers here, without the upper
  bound that the chain puts on amounts.
\<close>

type_synonym mutez = nat

definition nat_to_mutez :: "nat \<Rightarrow> mutez" where
  "nat_to_mutez n = n"

text \<open>
  \<^verbatim>\<open>sp.record(item_id = ...)\<close> is the parameter of buy, received and unsell;
  \<^verbatim>\<open>sp.record(item_id = ..., price = ...)\<close> is the parameter of sell and the stored
  product.
\<close>

record item_ref =
  item_id :: nat

record product = item_ref +
  price :: nat

record storage =
  product :: product
  seller :: address
  buyer :: address
  seller_is_set :: bool
  buyer_is_set :: bool

text \<open>\<^verbatim>\<open>sp.sender\<close> and \<^verbatim>\<open>sp.amount\<close> of one call.\<close>

record ctx =
  sender :: address
  amount :: mutez

text \<open>\<^verbatim>\<open>sp.send(destination, amount)\<close>.\<close>

datatype operation = Transfer address mutez

text \<open>
  One constructor for each message of a \<^verbatim>\<open>sp.verify\<close>; the two messages about the
  caller's role share a constructor.
\<close>

datatype role = Seller | Buyer

datatype error =
    AlreadyInUse
  | InvalidStake
  | ProductNotSet
  | SellerNotSet
  | BuyerNotSet
  | Unauthorized role

fun message :: "error \<Rightarrow> string" where
  "message AlreadyInUse = ''Contract already in use.''"
| "message InvalidStake = ''Stake should be two times the product price.''"
| "message ProductNotSet = ''Product not yet set.''"
| "message SellerNotSet = ''Seller not yet set.''"
| "message BuyerNotSet = ''Buyer not yet set.''"
| "message (Unauthorized Buyer) = ''You are not the buyer.''"
| "message (Unauthorized Seller) = ''You are not the seller.''"

type_synonym result = "error + storage \<times> operation list"

subsection \<open>DEFAULTS and the initial storage\<close>

definition default_seller :: address where
  "default_seller = ''tz1YtuZ4vhzzn7ssCt93Put8U9UJDdvCXci4''"

definition default_buyer :: address where
  "default_buyer = ''tz1YtuZ4vhzzn7ssCt93Put8U9UJDdvCXci4''"

definition no_product :: product where
  "no_product = \<lparr>item_id = 0, price = 0\<rparr>"

definition init_storage :: storage where
  "init_storage =
     \<lparr>product = no_product,
      seller = default_seller,
      buyer = default_buyer,
      seller_is_set = False,
      buyer_is_set = False\<rparr>"

subsection \<open>Entry points\<close>

definition reset_contract :: "storage \<Rightarrow> storage" where
  "reset_contract s =
     s\<lparr>product := no_product, buyer_is_set := False, seller_is_set := False\<rparr>"

definition sell :: "product \<Rightarrow> ctx \<Rightarrow> storage \<Rightarrow> result" where
  "sell params c s =
     (if seller_is_set s then Inl AlreadyInUse
      else if amount c \<noteq> nat_to_mutez (2 * price params) then Inl InvalidStake
      else Inr (s\<lparr>product := (product s)\<lparr>item_id := item_id params, price := price params\<rparr>,
                  seller := sender c,
                  seller_is_set := True\<rparr>, []))"

definition buy :: "item_ref \<Rightarrow> ctx \<Rightarrow> storage \<Rightarrow> result" where
  "buy params c s =
     (if \<not> seller_is_set s then Inl ProductNotSet
      else if buyer_is_set s then Inl AlreadyInUse
      else if amount c \<noteq> nat_to_mutez (2 * price (product s)) then Inl InvalidStake
      else Inr (s\<lparr>buyer := sender c, buyer_is_set := True\<rparr>, []))"

definition received :: "item_ref \<Rightarrow> ctx \<Rightarrow> storage \<Rightarrow> result" where
  "received params c s =
     (if \<not> seller_is_set s then Inl SellerNotSet
      else if \<not> buyer_is_set s then Inl BuyerNotSet
      else if sender c \<noteq> buyer s then Inl (Unauthorized Buyer)
      else Inr (reset_contract s,
                [Transfer (sender c) (nat_to_mutez (price (product s))),
                 Transfer (seller s) (nat_to_mutez (3 * price (product s)))]))"

definition unsell :: "item_ref \<Rightarrow> ctx \<Rightarrow> storage \<Rightarrow> result" where
  "unsell params c s =
     (if \<not> seller_is_set s then Inl SellerNotSet
      else if \<not> buyer_is_set s then Inl BuyerNotSet
      else if sender c \<noteq> seller s then Inl (Unauthorized Seller)
      else Inr (reset_contract s,
                [Transfer (sender c) (nat_to_mutez (2 * price (product s))),
                 Transfer (buyer s) (nat_to_mutez (2 * price (product s)))]))"

text \<open>A call names an entry point and carries its parameter.\<close>

datatype call = Sell product | Buy item_ref | Received item_ref | Unsell item_ref

fun dispatch :: "call \<Rightarrow> ctx \<Rightarrow> storage \<Rightarrow> result" where
  "dispatch (Sell p) c s = sell p c s"
| "dispatch (Buy p) c s = buy p c s"
| "dispatch (Received p) c s = received p c s"
| "dispatch (Unsell p) c s = unsell p c s"

fun resolving :: "call \<Rightarrow> bool" where
  "resolving (Received p) = True"
| "resolving (Unsell p) = True"
| "resolving (Sell p) = False"
| "resolving (Buy p) = False"

subsection \<open>The states of the protocol\<close>

definition is_empty :: "storage \<Rightarrow> bool" where
  "is_empty s \<longleftrightarrow> product s = no_product \<and> \<not> seller_is_set s \<and> \<not> buyer_is_set s"

definition fully_staked :: "storage \<Rightarrow> bool" where
  "fully_staked s \<longleftrightarrow> seller_is_set s \<and> buyer_is_set s"

definition data_inv :: "storage \<Rightarrow> bool" where
  "data_inv s \<longleftrightarrow>
     (buyer_is_set s \<longrightarrow> seller_is_set s) \<and> (\<not> seller_is_set s \<longrightarrow> product s = no_product)"

text \<open>
  The equivalence of two storages that differ at most in the identity stored in a slot
  whose flag is false.
\<close>

definition same_slots :: "storage \<Rightarrow> storage \<Rightarrow> bool" where
  "same_slots s t \<longleftrightarrow>
     product s = product t \<and>
     seller_is_set s = seller_is_set t \<and>
     buyer_is_set s = buyer_is_set t \<and>
     (seller_is_set s \<longrightarrow> seller s = seller t) \<and>
     (buyer_is_set s \<longrightarrow> buyer s = buyer t)"

subsection \<open>Transfers\<close>

fun total_sent :: "operation list \<Rightarrow> mutez" where
  "total_sent [] = 0"
| "total_sent (Transfer d m # ops) = m + total_sent ops"

fun paid_to :: "address \<Rightarrow> operation list \<Rightarrow> mutez" where
  "paid_to a [] = 0"
| "paid_to a (Transfer d m # ops) = (if d = a then m else 0) + paid_to a ops"

text \<open>
  What an address has at stake in the contract: the amount that sell demanded of it if it
  is the registered seller, plus the amount that buy demanded of it if it is the
  registered buyer.
\<close>

definition staked_by :: "address \<Rightarrow> storage \<Rightarrow> mutez" where
  "staked_by a s =
     (if seller_is_set s \<and> seller s = a then nat_to_mutez (2 * price (product s)) else 0) +
     (if buyer_is_set s \<and> buyer s = a then nat_to_mutez (2 * price (product s)) else 0)"

subsection \<open>Sequences of calls on the storage\<close>

text \<open>
  A failed call leaves the storage as it was; a successful one commits the new storage.
  \<open>outcomes\<close> lists, for each call, its error or the transfers it emitted.
\<close>

fun outcomes :: "(call \<times> ctx) list \<Rightarrow> storage \<Rightarrow> (error + operation list) list" where
  "outcomes [] s = []"
| "outcomes ((cl, c) # cs) s =
     (case dispatch cl c s of
        Inl e \<Rightarrow> Inl e # outcomes cs s
      | Inr (s', ops) \<Rightarrow> Inr ops # outcomes cs s')"

fun final :: "(call \<times> ctx) list \<Rightarrow> storage \<Rightarrow> storage" where
  "final [] s = s"
| "final ((cl, c) # cs) s =
     (case dispatch cl c s of
        Inl e \<Rightarrow> final cs s
      | Inr (s', ops) \<Rightarrow> final cs s')"

subsection \<open>The contract on the chain\<close>

text \<open>
  Modelled from the spec: the value-transfer substrate of its section 6, which is the
  SmartPy runtime and not part of the repository. The instance is its storage and its
  balance. The amount attached to a call is credited to the balance before the entry point
  runs, the emitted transfers are debited from it, and a call that fails (a failed
  \<^verbatim>\<open>sp.verify\<close>, or a transfer the balance does not cover) changes nothing and moves
  nothing.
\<close>

record chain =
  data :: storage
  balance :: mutez

datatype failure = Failed error | BalanceTooLow

definition genesis :: chain where
  "genesis = \<lparr>data = init_storage, balance = 0\<rparr>"

definition invoke :: "call \<Rightarrow> ctx \<Rightarrow> chain \<Rightarrow> failure + chain \<times> operation list" where
  "invoke cl c ch =
     (case dispatch cl c (data ch) of
        Inl e \<Rightarrow> Inl (Failed e)
      | Inr (s', ops) \<Rightarrow>
          if balance ch + amount c < total_sent ops then Inl BalanceTooLow
          else Inr (\<lparr>data = s', balance = balance ch + amount c - total_sent ops\<rparr>, ops))"

definition after :: "call \<Rightarrow> ctx \<Rightarrow> chain \<Rightarrow> chain" where
  "after cl c ch = (case invoke cl c ch of Inl e \<Rightarrow> ch | Inr (ch', ops) \<Rightarrow> ch')"

definition moved :: "call \<Rightarrow> ctx \<Rightarrow> chain \<Rightarrow> operation list" where
  "moved cl c ch = (case invoke cl c ch of Inl e \<Rightarrow> [] | Inr (ch', ops) \<Rightarrow> ops)"

fun run :: "(call \<times> ctx) list \<Rightarrow> chain \<Rightarrow> chain" where
  "run [] ch = ch"
| "run ((cl, c) # cs) ch = run cs (after cl c ch)"

text \<open>
  The escrow amounts of the data model: nothing while both flags are false, twice the
  price while only the seller is set, four times the price while both are set.
\<close>

definition escrow_matches :: "chain \<Rightarrow> bool" where
  "escrow_matches ch \<longleftrightarrow>
     (\<not> seller_is_set (data ch) \<and> \<not> buyer_is_set (data ch) \<longrightarrow> balance ch = 0) \<and>
     (seller_is_set (data ch) \<and> \<not> buyer_is_set (data ch) \<longrightarrow>
        balance ch = nat_to_mutez (2 * price (product (data ch)))) \<and>
     (seller_is_set (data ch) \<and> buyer_is_set (data ch) \<longrightarrow>
        balance ch = nat_to_mutez (4 * price (product (data ch))))"

text \<open>Whether a call attaches nothing when it resolves the sale.\<close>

definition plain :: "call \<times> ctx \<Rightarrow> bool" where
  "plain x \<longleftrightarrow> (resolving (fst x) \<longrightarrow> amount (snd x) = 0)"

section \<open>Supporting facts\<close>

lemmas entry_defs = sell_def buy_def received_def unsell_def reset_contract_def nat_to_mutez_def

text \<open>
  After a sell and a buy that both succeed, the stake of an address is what that address
  attached to the two calls.
\<close>

lemma staked_by_after_sell_buy:
  assumes "sell p c1 s0 = Inr (s1, ops1)" and "buy q c2 s1 = Inr (s2, ops2)"
  shows "staked_by a s2 =
           (if sender c1 = a then amount c1 else 0) + (if sender c2 = a then amount c2 else 0)"
  using assms by (auto simp: entry_defs staked_by_def split: if_splits)

text \<open>
  The scenario of the repository's test: alice sells item 1 at 1000000 with 2 tez
  attached, bob buys with 2 tez attached, bob confirms the delivery, and the unsell that
  alice tries afterwards is rejected.
\<close>

lemma test_scenario:
  "outcomes [(Sell \<lparr>item_id = 1, price = 1000000\<rparr>, \<lparr>sender = ''alice'', amount = 2000000\<rparr>),
             (Buy \<lparr>item_id = 1\<rparr>, \<lparr>sender = ''bob'', amount = 2000000\<rparr>),
             (Received \<lparr>item_id = 1\<rparr>, \<lparr>sender = ''bob'', amount = 0\<rparr>),
             (Unsell \<lparr>item_id = 1\<rparr>, \<lparr>sender = ''alice'', amount = 0\<rparr>)] init_storage
   = [Inr [], Inr [], Inr [Transfer ''bob'' 1000000, Transfer ''alice'' 3000000],
      Inl SellerNotSet]"
  by (simp add: init_storage_def no_product_def entry_defs)

lemma dispatch_data_inv:
  assumes "data_inv s" and "dispatch cl c s = Inr (s', ops)"
  shows "data_inv s'"
  using assms by (cases cl) (auto simp: entry_defs data_inv_def split: if_splits)

text \<open>A call either changes nothing or commits what the entry point returned.\<close>

lemma after_cases:
  "after cl c ch = ch \<or>
   (\<exists>s' ops. dispatch cl c (data ch) = Inr (s', ops) \<and> total_sent ops \<le> balance ch + amount c \<and>
      after cl c ch = \<lparr>data = s', balance = balance ch + amount c - total_sent ops\<rparr>)"
  by (auto simp: after_def invoke_def split: sum.splits)

lemma dispatch_escrow:
  assumes "data_inv (data ch)" and "escrow_matches ch"
    and "resolving cl \<longrightarrow> amount c = 0"
    and "dispatch cl c (data ch) = Inr (s', ops)"
  shows "escrow_matches \<lparr>data = s', balance = balance ch + amount c - total_sent ops\<rparr>"
  using assms
  by (cases cl) (auto simp: entry_defs data_inv_def escrow_matches_def no_product_def split: if_splits)

lemma after_escrow:
  assumes "data_inv (data ch)" and "escrow_matches ch" and "plain (cl, c)"
  shows "data_inv (data (after cl c ch)) \<and> escrow_matches (after cl c ch)"
proof -
  from after_cases [of cl c ch] show ?thesis
  proof
    assume "after cl c ch = ch"
    with assms show ?thesis by simp
  next
    assume "\<exists>s' ops. dispatch cl c (data ch) = Inr (s', ops) \<and>
              total_sent ops \<le> balance ch + amount c \<and>
              after cl c ch = \<lparr>data = s', balance = balance ch + amount c - total_sent ops\<rparr>"
    then obtain s' ops where d: "dispatch cl c (data ch) = Inr (s', ops)"
      and a: "after cl c ch = \<lparr>data = s', balance = balance ch + amount c - total_sent ops\<rparr>"
      by blast
    from assms(1,2) d assms(3)
    have "escrow_matches \<lparr>data = s', balance = balance ch + amount c - total_sent ops\<rparr>"
      by (intro dispatch_escrow) (auto simp: plain_def)
    moreover from assms(1) d have "data_inv s'" by (rule dispatch_data_inv)
    ultimately show ?thesis using a by simp
  qed
qed

lemma run_escrow:
  assumes "data_inv (data ch)" and "escrow_matches ch" and "\<forall>x \<in> set cs. plain x"
  shows "data_inv (data (run cs ch)) \<and> escrow_matches (run cs ch)"
  using assms
proof (induction cs arbitrary: ch)
  case Nil
  then show ?case by simp
next
  case (Cons x cs)
  obtain cl c where x: "x = (cl, c)" by (cases x)
  from Cons.prems have "plain (cl, c)" by (simp add: x)
  with Cons.prems have "data_inv (data (after cl c ch)) \<and> escrow_matches (after cl c ch)"
    by (intro after_escrow) auto
  with Cons.IH [of "after cl c ch"] Cons.prems show ?case by (simp add: x)
qed

text \<open>
  On a fresh instance, a sell with the right stake followed by a buy with the right stake
  registers both parties and leaves four times the price in the balance.
\<close>

lemma sell_then_buy:
  "run [(Sell \<lparr>item_id = i, price = p\<rparr>, \<lparr>sender = a, amount = 2 * p\<rparr>),
        (Buy \<lparr>item_id = j\<rparr>, \<lparr>sender = b, amount = 2 * p\<rparr>)] genesis
   = \<lparr>data = \<lparr>product = \<lparr>item_id = i, price = p\<rparr>, seller = a, buyer = b,
               seller_is_set = True, buyer_is_set = True\<rparr>,
      balance = 4 * p\<rparr>"
  by (simp add: genesis_def init_storage_def no_product_def after_def invoke_def entry_defs)

text \<open>
  Two storages that agree on the product, the flags and the occupied slots give the same
  error or the same transfers for every call, and agree again afterwards.
\<close>

lemma dispatch_same_slots:
  assumes "same_slots s t"
  shows "rel_sum (=) (\<lambda>(s', ops) (t', ops'). ops = ops' \<and> same_slots s' t')
           (dispatch cl c s) (dispatch cl c t)"
  using assms by (cases cl) (auto simp: entry_defs same_slots_def)

lemma outcomes_same_slots:
  assumes "same_slots s t"
  shows "outcomes cs s = outcomes cs t \<and> same_slots (final cs s) (final cs t)"
  using assms
proof (induction cs arbitrary: s t)
  case Nil
  then show ?case by simp
next
  case (Cons x cs)
  obtain cl c where x: "x = (cl, c)" by (cases x)
  from Cons.prems
  have r: "rel_sum (=) (\<lambda>(s', ops) (t', ops'). ops = ops' \<and> same_slots s' t')
             (dispatch cl c s) (dispatch cl c t)"
    by (rule dispatch_same_slots)
  show ?case
  proof (cases "dispatch cl c s")
    case (Inl e)
    with r have "dispatch cl c t = Inl e" by (cases "dispatch cl c t") auto
    with Inl Cons.IH [OF Cons.prems] show ?thesis by (simp add: x)
  next
    case (Inr p)
    obtain s' ops where p: "p = (s', ops)" by (cases p)
    with r Inr obtain t' where t: "dispatch cl c t = Inr (t', ops)" and ss: "same_slots s' t'"
      by (cases "dispatch cl c t") auto
    from Cons.IH [OF ss] Inr p t show ?thesis by (simp add: x)
  qed
qed

section \<open>The claims\<close>

text \<open>
  C1. In every state in which both flags are true, received called by the stored buyer
  sends exactly the price to the buyer and exactly three times the price to the seller,
  four times the price in all, and resets the storage to the empty listing with both flags
  false. On an instance that holds four times the price, and with nothing attached to the
  call, the balance left is zero.
\<close>

theorem received_pays:
  assumes "seller_is_set s" and "buyer_is_set s" and "sender c = buyer s"
  shows "received params c s =
           Inr (reset_contract s,
                [Transfer (buyer s) (price (product s)),
                 Transfer (seller s) (3 * price (product s))])
         \<and> total_sent [Transfer (buyer s) (price (product s)),
                        Transfer (seller s) (3 * price (product s))] = 4 * price (product s)
         \<and> product (reset_contract s) = \<lparr>item_id = 0, price = 0\<rparr>
         \<and> \<not> seller_is_set (reset_contract s)
         \<and> \<not> buyer_is_set (reset_contract s)
         \<and> (balance ch = 4 * price (product s) \<and> data ch = s \<and> amount c = 0 \<longrightarrow>
              invoke (Received params) c ch =
                Inr (\<lparr>data = reset_contract s, balance = 0\<rparr>,
                     [Transfer (buyer s) (price (product s)),
                      Transfer (seller s) (3 * price (product s))]))"
  using assms by (simp add: entry_defs no_product_def invoke_def)

theorem received_pays_witness:
  "received \<lparr>item_id = 1\<rparr> \<lparr>sender = ''bob'', amount = 0\<rparr>
      \<lparr>product = \<lparr>item_id = 1, price = 1000000\<rparr>, seller = ''alice'', buyer = ''bob'',
       seller_is_set = True, buyer_is_set = True\<rparr>
    = Inr (\<lparr>product = \<lparr>item_id = 0, price = 0\<rparr>, seller = ''alice'', buyer = ''bob'',
            seller_is_set = False, buyer_is_set = False\<rparr>,
           [Transfer ''bob'' 1000000, Transfer ''alice'' 3000000])
   \<and> invoke (Received \<lparr>item_id = 1\<rparr>) \<lparr>sender = ''bob'', amount = 0\<rparr>
        \<lparr>data = \<lparr>product = \<lparr>item_id = 1, price = 1000000\<rparr>, seller = ''alice'',
                 buyer = ''bob'', seller_is_set = True, buyer_is_set = True\<rparr>,
         balance = 4000000\<rparr>
    = Inr (\<lparr>data = \<lparr>product = \<lparr>item_id = 0, price = 0\<rparr>, seller = ''alice'',
                    buyer = ''bob'', seller_is_set = False, buyer_is_set = False\<rparr>,
            balance = 0\<rparr>,
           [Transfer ''bob'' 1000000, Transfer ''alice'' 3000000])"
  using received_pays
    [of "\<lparr>product = \<lparr>item_id = 1, price = 1000000\<rparr>, seller = ''alice'', buyer = ''bob'',
          seller_is_set = True, buyer_is_set = True\<rparr>"
        "\<lparr>sender = ''bob'', amount = 0\<rparr>"
        "\<lparr>item_id = 1\<rparr>"
        "\<lparr>data = \<lparr>product = \<lparr>item_id = 1, price = 1000000\<rparr>, seller = ''alice'',
                 buyer = ''bob'', seller_is_set = True, buyer_is_set = True\<rparr>,
          balance = 4000000\<rparr>"]
  by (simp add: reset_contract_def no_product_def)

text \<open>
  C2. In every state in which both flags are true, unsell called by the stored seller
  sends exactly twice the price to the seller and exactly twice the price to the buyer and
  resets the storage to the empty listing with both flags false. What the seller is paid
  minus what the seller has at stake is zero: withdrawing the sale brings the seller no
  gain.
\<close>

theorem unsell_refunds:
  assumes "seller_is_set s" and "buyer_is_set s" and "sender c = seller s"
  shows "unsell params c s =
           Inr (reset_contract s,
                [Transfer (seller s) (2 * price (product s)),
                 Transfer (buyer s) (2 * price (product s))])
         \<and> product (reset_contract s) = \<lparr>item_id = 0, price = 0\<rparr>
         \<and> \<not> seller_is_set (reset_contract s)
         \<and> \<not> buyer_is_set (reset_contract s)
         \<and> int (paid_to (seller s) [Transfer (seller s) (2 * price (product s)),
                                     Transfer (buyer s) (2 * price (product s))])
             - int (staked_by (seller s) s) = 0"
  using assms by (simp add: entry_defs no_product_def staked_by_def)

theorem unsell_refunds_witness:
  "unsell \<lparr>item_id = 1\<rparr> \<lparr>sender = ''alice'', amount = 0\<rparr>
      \<lparr>product = \<lparr>item_id = 1, price = 1000000\<rparr>, seller = ''alice'', buyer = ''bob'',
       seller_is_set = True, buyer_is_set = True\<rparr>
    = Inr (\<lparr>product = \<lparr>item_id = 0, price = 0\<rparr>, seller = ''alice'', buyer = ''bob'',
            seller_is_set = False, buyer_is_set = False\<rparr>,
           [Transfer ''alice'' 2000000, Transfer ''bob'' 2000000])
   \<and> int (paid_to ''alice'' [Transfer ''alice'' 2000000, Transfer ''bob'' 2000000])
       - int (staked_by ''alice''
                \<lparr>product = \<lparr>item_id = 1, price = 1000000\<rparr>, seller = ''alice'', buyer = ''bob'',
                 seller_is_set = True, buyer_is_set = True\<rparr>) = 0"
  using unsell_refunds
    [of "\<lparr>product = \<lparr>item_id = 1, price = 1000000\<rparr>, seller = ''alice'', buyer = ''bob'',
          seller_is_set = True, buyer_is_set = True\<rparr>"
        "\<lparr>sender = ''alice'', amount = 0\<rparr>"
        "\<lparr>item_id = 1\<rparr>"]
  by (simp add: reset_contract_def no_product_def)

text \<open>
  C3, as stated: in every state that calls can reach from the freshly originated instance,
  the balance is zero while both flags are false, twice the price while only the seller is
  set and four times the price while both are set. The entry points received and unsell
  never look at the attached amount, so an amount attached to one of them stays in the
  balance after the payout: after a sale at price 1 that the buyer confirms with 5 units
  attached, both flags are false and the balance is 5.
\<close>

theorem escrow_with_tip_counterexample:
  "\<not> escrow_matches
       (run [(Sell \<lparr>item_id = 1, price = 1\<rparr>, \<lparr>sender = ''alice'', amount = 2\<rparr>),
             (Buy \<lparr>item_id = 1\<rparr>, \<lparr>sender = ''bob'', amount = 2\<rparr>),
             (Received \<lparr>item_id = 1\<rparr>, \<lparr>sender = ''bob'', amount = 5\<rparr>)] genesis)"
  by (simp add: escrow_matches_def genesis_def init_storage_def after_def invoke_def entry_defs)

text \<open>
  C3, amended: in every state reached from the freshly originated instance by calls of
  which none attaches an amount to received or unsell, the balance is zero while both
  flags are false, twice the price while only the seller is set and four times the price
  while both are set.
\<close>

theorem escrow_without_tips:
  assumes "\<forall>x \<in> set cs. plain x"
  shows "escrow_matches (run cs genesis)"
proof -
  have "data_inv (data genesis)" "escrow_matches genesis"
    by (simp_all add: genesis_def init_storage_def data_inv_def escrow_matches_def)
  with assms show ?thesis using run_escrow by blast
qed

theorem escrow_without_tips_witness:
  "plain (Sell \<lparr>item_id = 1, price = 1000000\<rparr>, \<lparr>sender = ''alice'', amount = 2000000\<rparr>)
   \<and> plain (Buy \<lparr>item_id = 1\<rparr>, \<lparr>sender = ''bob'', amount = 2000000\<rparr>)
   \<and> escrow_matches
       (run [(Sell \<lparr>item_id = 1, price = 1000000\<rparr>, \<lparr>sender = ''alice'', amount = 2000000\<rparr>),
             (Buy \<lparr>item_id = 1\<rparr>, \<lparr>sender = ''bob'', amount = 2000000\<rparr>)] genesis)
   \<and> balance
       (run [(Sell \<lparr>item_id = 1, price = 1000000\<rparr>, \<lparr>sender = ''alice'', amount = 2000000\<rparr>),
             (Buy \<lparr>item_id = 1\<rparr>, \<lparr>sender = ''bob'', amount = 2000000\<rparr>)] genesis) = 4000000"
  using escrow_without_tips
    [of "[(Sell \<lparr>item_id = 1, price = 1000000\<rparr>, \<lparr>sender = ''alice'', amount = 2000000\<rparr>),
          (Buy \<lparr>item_id = 1\<rparr>, \<lparr>sender = ''bob'', amount = 2000000\<rparr>)]"]
  by (simp add: plain_def genesis_def init_storage_def after_def invoke_def entry_defs)

text \<open>
  C4. The two invariants of the data model (a set buyer flag implies a set seller flag;
  an unset seller flag implies the empty listing) hold of the initial storage, and every
  call of sell, buy, received or unsell on a storage that satisfies them leaves a storage
  that satisfies them, whether the call succeeds or fails.
\<close>

theorem data_inv_preserved:
  "data_inv init_storage \<and> (data_inv (data ch) \<longrightarrow> data_inv (data (after cl c ch)))"
proof
  show "data_inv init_storage"
    by (simp add: data_inv_def init_storage_def)
next
  show "data_inv (data ch) \<longrightarrow> data_inv (data (after cl c ch))"
    using after_cases [of cl c ch] by (auto dest: dispatch_data_inv)
qed

theorem data_inv_preserved_witness:
  "data_inv (data genesis)
   \<and> data_inv (data (after (Sell \<lparr>item_id = 1, price = 1000000\<rparr>)
                            \<lparr>sender = ''alice'', amount = 2000000\<rparr> genesis))
   \<and> seller_is_set (data (after (Sell \<lparr>item_id = 1, price = 1000000\<rparr>)
                                 \<lparr>sender = ''alice'', amount = 2000000\<rparr> genesis))"
  using data_inv_preserved
    [of genesis "Sell \<lparr>item_id = 1, price = 1000000\<rparr>" "\<lparr>sender = ''alice'', amount = 2000000\<rparr>"]
  by (simp add: genesis_def after_def invoke_def init_storage_def entry_defs)

text \<open>
  C5. On an instance without a seller, a call of sell whose attached amount is not twice
  the stated price fails with the stake error, changes neither the storage nor the
  balance, and moves nothing; an empty instance stays empty.
\<close>

theorem sell_wrong_stake:
  assumes "\<not> seller_is_set (data ch)" and "amount c \<noteq> 2 * price params"
  shows "sell params c (data ch) = Inl InvalidStake
         \<and> invoke (Sell params) c ch = Inl (Failed InvalidStake)
         \<and> after (Sell params) c ch = ch
         \<and> moved (Sell params) c ch = []
         \<and> (is_empty (data ch) \<longrightarrow> is_empty (data (after (Sell params) c ch)))"
  using assms by (simp add: entry_defs invoke_def after_def moved_def)

theorem sell_wrong_stake_witness:
  "\<not> seller_is_set (data genesis)
   \<and> amount \<lparr>sender = ''alice'', amount = 1999999\<rparr> \<noteq> 2 * price \<lparr>item_id = 1, price = 1000000\<rparr>
   \<and> is_empty (data genesis)
   \<and> sell \<lparr>item_id = 1, price = 1000000\<rparr> \<lparr>sender = ''alice'', amount = 1999999\<rparr> (data genesis)
       = Inl InvalidStake
   \<and> after (Sell \<lparr>item_id = 1, price = 1000000\<rparr>) \<lparr>sender = ''alice'', amount = 1999999\<rparr> genesis
       = genesis
   \<and> moved (Sell \<lparr>item_id = 1, price = 1000000\<rparr>) \<lparr>sender = ''alice'', amount = 1999999\<rparr> genesis
       = []
   \<and> is_empty (data (after (Sell \<lparr>item_id = 1, price = 1000000\<rparr>)
                            \<lparr>sender = ''alice'', amount = 1999999\<rparr> genesis))"
  using sell_wrong_stake
    [of genesis "\<lparr>sender = ''alice'', amount = 1999999\<rparr>" "\<lparr>item_id = 1, price = 1000000\<rparr>"]
  by (simp add: genesis_def init_storage_def is_empty_def)

text \<open>
  C6. After received or unsell has succeeded, the listing is empty and both flags are
  false, and every sequence of calls made from that storage gives, call by call, the same
  error or the same transfers as the same sequence made from the initial storage; the
  storages reached agree on the product, the flags and the occupied slots, and are equal
  once both slots are occupied again.
\<close>

theorem resolved_is_fresh:
  assumes "resolving cl" and "dispatch cl c s = Inr (s', ops)"
  shows "product s' = \<lparr>item_id = 0, price = 0\<rparr> \<and> \<not> seller_is_set s' \<and> \<not> buyer_is_set s'
         \<and> outcomes cs s' = outcomes cs init_storage
         \<and> same_slots (final cs s') (final cs init_storage)
         \<and> (fully_staked (final cs s') \<longrightarrow> final cs s' = final cs init_storage)"
proof -
  from assms have e: "product s' = no_product \<and> \<not> seller_is_set s' \<and> \<not> buyer_is_set s'"
    by (cases cl) (auto simp: entry_defs split: if_splits)
  then have "same_slots s' init_storage"
    by (simp add: same_slots_def init_storage_def)
  then have o: "outcomes cs s' = outcomes cs init_storage
                \<and> same_slots (final cs s') (final cs init_storage)"
    by (rule outcomes_same_slots)
  have "fully_staked (final cs s') \<longrightarrow> final cs s' = final cs init_storage"
    using o by (auto simp: same_slots_def fully_staked_def)
  with e o show ?thesis by (simp add: no_product_def)
qed

theorem resolved_is_fresh_witness:
  "resolving (Received \<lparr>item_id = 1\<rparr>)
   \<and> dispatch (Received \<lparr>item_id = 1\<rparr>) \<lparr>sender = ''bob'', amount = 0\<rparr>
        \<lparr>product = \<lparr>item_id = 1, price = 1000000\<rparr>, seller = ''alice'', buyer = ''bob'',
         seller_is_set = True, buyer_is_set = True\<rparr>
      = Inr (\<lparr>product = \<lparr>item_id = 0, price = 0\<rparr>, seller = ''alice'', buyer = ''bob'',
              seller_is_set = False, buyer_is_set = False\<rparr>,
             [Transfer ''bob'' 1000000, Transfer ''alice'' 3000000])
   \<and> outcomes [(Sell \<lparr>item_id = 2, price = 5\<rparr>, \<lparr>sender = ''carol'', amount = 10\<rparr>),
               (Buy \<lparr>item_id = 2\<rparr>, \<lparr>sender = ''dave'', amount = 10\<rparr>),
               (Unsell \<lparr>item_id = 2\<rparr>, \<lparr>sender = ''carol'', amount = 0\<rparr>)]
        \<lparr>product = \<lparr>item_id = 0, price = 0\<rparr>, seller = ''alice'', buyer = ''bob'',
         seller_is_set = False, buyer_is_set = False\<rparr>
      = outcomes [(Sell \<lparr>item_id = 2, price = 5\<rparr>, \<lparr>sender = ''carol'', amount = 10\<rparr>),
                  (Buy \<lparr>item_id = 2\<rparr>, \<lparr>sender = ''dave'', amount = 10\<rparr>),
                  (Unsell \<lparr>item_id = 2\<rparr>, \<lparr>sender = ''carol'', amount = 0\<rparr>)] init_storage
   \<and> fully_staked
       (final [(Sell \<lparr>item_id = 2, price = 5\<rparr>, \<lparr>sender = ''carol'', amount = 10\<rparr>),
               (Buy \<lparr>item_id = 2\<rparr>, \<lparr>sender = ''dave'', amount = 10\<rparr>)]
          \<lparr>product = \<lparr>item_id = 0, price = 0\<rparr>, seller = ''alice'', buyer = ''bob'',
           seller_is_set = False, buyer_is_set = False\<rparr>)
   \<and> final [(Sell \<lparr>item_id = 2, price = 5\<rparr>, \<lparr>sender = ''carol'', amount = 10\<rparr>),
            (Buy \<lparr>item_id = 2\<rparr>, \<lparr>sender = ''dave'', amount = 10\<rparr>)]
        \<lparr>product = \<lparr>item_id = 0, price = 0\<rparr>, seller = ''alice'', buyer = ''bob'',
         seller_is_set = False, buyer_is_set = False\<rparr>
      = final [(Sell \<lparr>item_id = 2, price = 5\<rparr>, \<lparr>sender = ''carol'', amount = 10\<rparr>),
               (Buy \<lparr>item_id = 2\<rparr>, \<lparr>sender = ''dave'', amount = 10\<rparr>)] init_storage"
proof -
  have r: "resolving (Received \<lparr>item_id = 1\<rparr>)"
    by simp
  have d: "dispatch (Received \<lparr>item_id = 1\<rparr>) \<lparr>sender = ''bob'', amount = 0\<rparr>
        \<lparr>product = \<lparr>item_id = 1, price = 1000000\<rparr>, seller = ''alice'', buyer = ''bob'',
         seller_is_set = True, buyer_is_set = True\<rparr>
      = Inr (\<lparr>product = \<lparr>item_id = 0, price = 0\<rparr>, seller = ''alice'', buyer = ''bob'',
              seller_is_set = False, buyer_is_set = False\<rparr>,
             [Transfer ''bob'' 1000000, Transfer ''alice'' 3000000])"
    by (simp add: entry_defs no_product_def)
  have f: "fully_staked
       (final [(Sell \<lparr>item_id = 2, price = 5\<rparr>, \<lparr>sender = ''carol'', amount = 10\<rparr>),
               (Buy \<lparr>item_id = 2\<rparr>, \<lparr>sender = ''dave'', amount = 10\<rparr>)]
          \<lparr>product = \<lparr>item_id = 0, price = 0\<rparr>, seller = ''alice'', buyer = ''bob'',
           seller_is_set = False, buyer_is_set = False\<rparr>)"
    by (simp add: entry_defs fully_staked_def)
  from resolved_is_fresh [OF r d,
      of "[(Sell \<lparr>item_id = 2, price = 5\<rparr>, \<lparr>sender = ''carol'', amount = 10\<rparr>),
           (Buy \<lparr>item_id = 2\<rparr>, \<lparr>sender = ''dave'', amount = 10\<rparr>),
           (Unsell \<lparr>item_id = 2\<rparr>, \<lparr>sender = ''carol'', amount = 0\<rparr>)]"]
    resolved_is_fresh [OF r d,
      of "[(Sell \<lparr>item_id = 2, price = 5\<rparr>, \<lparr>sender = ''carol'', amount = 10\<rparr>),
           (Buy \<lparr>item_id = 2\<rparr>, \<lparr>sender = ''dave'', amount = 10\<rparr>)]"]
    r d f
  show ?thesis by blast
qed

text \<open>
  C7. On a fully staked instance, received called by anyone but the stored buyer fails
  with the authorisation error, and unsell called by anyone but the stored seller fails
  with the authorisation error; in both cases the storage and the balance stay as they
  were and nothing is transferred.
\<close>

theorem resolve_unauthorized:
  assumes "fully_staked (data ch)"
  shows "(sender c \<noteq> buyer (data ch) \<longrightarrow>
            received params c (data ch) = Inl (Unauthorized Buyer)
            \<and> invoke (Received params) c ch = Inl (Failed (Unauthorized Buyer))
            \<and> after (Received params) c ch = ch
            \<and> moved (Received params) c ch = [])
       \<and> (sender c \<noteq> seller (data ch) \<longrightarrow>
            unsell params c (data ch) = Inl (Unauthorized Seller)
            \<and> invoke (Unsell params) c ch = Inl (Failed (Unauthorized Seller))
            \<and> after (Unsell params) c ch = ch
            \<and> moved (Unsell params) c ch = [])"
  using assms by (simp add: entry_defs fully_staked_def invoke_def after_def moved_def)

theorem resolve_unauthorized_witness:
  "fully_staked \<lparr>product = \<lparr>item_id = 1, price = 1000000\<rparr>, seller = ''alice'', buyer = ''bob'',
                 seller_is_set = True, buyer_is_set = True\<rparr>
   \<and> ''carol'' \<noteq> ''bob'' \<and> ''carol'' \<noteq> ''alice''
   \<and> invoke (Received \<lparr>item_id = 1\<rparr>) \<lparr>sender = ''carol'', amount = 0\<rparr>
        \<lparr>data = \<lparr>product = \<lparr>item_id = 1, price = 1000000\<rparr>, seller = ''alice'',
                 buyer = ''bob'', seller_is_set = True, buyer_is_set = True\<rparr>,
         balance = 4000000\<rparr>
      = Inl (Failed (Unauthorized Buyer))
   \<and> after (Received \<lparr>item_id = 1\<rparr>) \<lparr>sender = ''carol'', amount = 0\<rparr>
        \<lparr>data = \<lparr>product = \<lparr>item_id = 1, price = 1000000\<rparr>, seller = ''alice'',
                 buyer = ''bob'', seller_is_set = True, buyer_is_set = True\<rparr>,
         balance = 4000000\<rparr>
      = \<lparr>data = \<lparr>product = \<lparr>item_id = 1, price = 1000000\<rparr>, seller = ''alice'',
                 buyer = ''bob'', seller_is_set = True, buyer_is_set = True\<rparr>,
         balance = 4000000\<rparr>
   \<and> invoke (Unsell \<lparr>item_id = 1\<rparr>) \<lparr>sender = ''carol'', amount = 0\<rparr>
        \<lparr>data = \<lparr>product = \<lparr>item_id = 1, price = 1000000\<rparr>, seller = ''alice'',
                 buyer = ''bob'', seller_is_set = True, buyer_is_set = True\<rparr>,
         balance = 4000000\<rparr>
      = Inl (Failed (Unauthorized Seller))
   \<and> moved (Unsell \<lparr>item_id = 1\<rparr>) \<lparr>sender = ''carol'', amount = 0\<rparr>
        \<lparr>data = \<lparr>product = \<lparr>item_id = 1, price = 1000000\<rparr>, seller = ''alice'',
                 buyer = ''bob'', seller_is_set = True, buyer_is_set = True\<rparr>,
         balance = 4000000\<rparr>
      = []"
  using resolve_unauthorized
    [of "\<lparr>data = \<lparr>product = \<lparr>item_id = 1, price = 1000000\<rparr>, seller = ''alice'',
                 buyer = ''bob'', seller_is_set = True, buyer_is_set = True\<rparr>,
          balance = 4000000\<rparr>"
        "\<lparr>sender = ''carol'', amount = 0\<rparr>"
        "\<lparr>item_id = 1\<rparr>"]
  by (simp add: fully_staked_def)

text \<open>
  C8. On an instance whose seller flag is false, buy fails with the error of the missing
  product, whatever its parameter, its sender and its attached amount; the storage and the
  balance stay as they were and nothing is transferred.
\<close>

theorem buy_without_seller:
  assumes "\<not> seller_is_set (data ch)"
  shows "buy params c (data ch) = Inl ProductNotSet
         \<and> invoke (Buy params) c ch = Inl (Failed ProductNotSet)
         \<and> after (Buy params) c ch = ch
         \<and> moved (Buy params) c ch = []"
  using assms by (simp add: entry_defs invoke_def after_def moved_def)

theorem buy_without_seller_witness:
  "\<not> seller_is_set (data genesis)
   \<and> buy \<lparr>item_id = 1\<rparr> \<lparr>sender = ''bob'', amount = 2000000\<rparr> (data genesis) = Inl ProductNotSet
   \<and> after (Buy \<lparr>item_id = 1\<rparr>) \<lparr>sender = ''bob'', amount = 2000000\<rparr> genesis = genesis
   \<and> moved (Buy \<lparr>item_id = 1\<rparr>) \<lparr>sender = ''bob'', amount = 2000000\<rparr> genesis = []"
  using buy_without_seller [of genesis "\<lparr>item_id = 1\<rparr>" "\<lparr>sender = ''bob'', amount = 2000000\<rparr>"]
  by (simp add: genesis_def init_storage_def)

text \<open>
  C9. The result of buy, of received and of unsell (the error, or the new storage and the
  transfers) is the same for any two values of the item_id argument, on the same storage,
  sender and attached amount; so is the effect on the instance. The argument is compared
  with nothing, the stored item_id included.
\<close>

theorem item_id_ignored:
  "buy \<lparr>item_id = i\<rparr> c s = buy \<lparr>item_id = j\<rparr> c s
   \<and> received \<lparr>item_id = i\<rparr> c s = received \<lparr>item_id = j\<rparr> c s
   \<and> unsell \<lparr>item_id = i\<rparr> c s = unsell \<lparr>item_id = j\<rparr> c s
   \<and> invoke (Buy \<lparr>item_id = i\<rparr>) c ch = invoke (Buy \<lparr>item_id = j\<rparr>) c ch
   \<and> invoke (Received \<lparr>item_id = i\<rparr>) c ch = invoke (Received \<lparr>item_id = j\<rparr>) c ch
   \<and> invoke (Unsell \<lparr>item_id = i\<rparr>) c ch = invoke (Unsell \<lparr>item_id = j\<rparr>) c ch"
  by (simp add: buy_def received_def unsell_def invoke_def)

text \<open>
  C10. The reset changes the product and the two flags only: the seller and buyer fields
  keep their values. So after a successful received or unsell they are the fields of the
  storage before the call, and after a whole cycle they are the senders of that cycle's
  sell and buy. The two placeholder addresses of the initial storage are one address.
\<close>

theorem reset_keeps_identities:
  "seller (reset_contract s) = seller s
   \<and> buyer (reset_contract s) = buyer s
   \<and> (resolving cl \<and> dispatch cl c s = Inr (s', ops) \<longrightarrow>
        seller s' = seller s \<and> buyer s' = buyer s)
   \<and> (sell p c1 s0 = Inr (s1, ops1) \<and> buy q c2 s1 = Inr (s2, ops2) \<and> resolving cl
        \<and> dispatch cl c3 s2 = Inr (s3, ops3) \<longrightarrow>
        seller s3 = sender c1 \<and> buyer s3 = sender c2)
   \<and> seller init_storage = buyer init_storage
   \<and> default_seller = default_buyer"
  by (cases cl)
    (auto simp: entry_defs init_storage_def default_seller_def default_buyer_def split: if_splits)

theorem reset_keeps_identities_witness:
  "sell \<lparr>item_id = 1, price = 1000000\<rparr> \<lparr>sender = ''alice'', amount = 2000000\<rparr> init_storage
     = Inr (\<lparr>product = \<lparr>item_id = 1, price = 1000000\<rparr>, seller = ''alice'',
             buyer = default_buyer, seller_is_set = True, buyer_is_set = False\<rparr>, [])
   \<and> buy \<lparr>item_id = 1\<rparr> \<lparr>sender = ''bob'', amount = 2000000\<rparr>
       \<lparr>product = \<lparr>item_id = 1, price = 1000000\<rparr>, seller = ''alice'',
        buyer = default_buyer, seller_is_set = True, buyer_is_set = False\<rparr>
     = Inr (\<lparr>product = \<lparr>item_id = 1, price = 1000000\<rparr>, seller = ''alice'',
             buyer = ''bob'', seller_is_set = True, buyer_is_set = True\<rparr>, [])
   \<and> resolving (Received \<lparr>item_id = 1\<rparr>)
   \<and> dispatch (Received \<lparr>item_id = 1\<rparr>) \<lparr>sender = ''bob'', amount = 0\<rparr>
       \<lparr>product = \<lparr>item_id = 1, price = 1000000\<rparr>, seller = ''alice'',
        buyer = ''bob'', seller_is_set = True, buyer_is_set = True\<rparr>
     = Inr (\<lparr>product = \<lparr>item_id = 0, price = 0\<rparr>, seller = ''alice'',
             buyer = ''bob'', seller_is_set = False, buyer_is_set = False\<rparr>,
            [Transfer ''bob'' 1000000, Transfer ''alice'' 3000000])
   \<and> seller \<lparr>product = \<lparr>item_id = 0, price = 0\<rparr>, seller = ''alice'',
             buyer = ''bob'', seller_is_set = False, buyer_is_set = False\<rparr> = ''alice''
   \<and> buyer \<lparr>product = \<lparr>item_id = 0, price = 0\<rparr>, seller = ''alice'',
            buyer = ''bob'', seller_is_set = False, buyer_is_set = False\<rparr> = ''bob''
   \<and> ''alice'' \<noteq> default_seller \<and> ''bob'' \<noteq> default_buyer"
proof -
  have a: "sell \<lparr>item_id = 1, price = 1000000\<rparr> \<lparr>sender = ''alice'', amount = 2000000\<rparr> init_storage
     = Inr (\<lparr>product = \<lparr>item_id = 1, price = 1000000\<rparr>, seller = ''alice'',
             buyer = default_buyer, seller_is_set = True, buyer_is_set = False\<rparr>, [])"
    by (simp add: entry_defs init_storage_def no_product_def)
  have b: "buy \<lparr>item_id = 1\<rparr> \<lparr>sender = ''bob'', amount = 2000000\<rparr>
       \<lparr>product = \<lparr>item_id = 1, price = 1000000\<rparr>, seller = ''alice'',
        buyer = default_buyer, seller_is_set = True, buyer_is_set = False\<rparr>
     = Inr (\<lparr>product = \<lparr>item_id = 1, price = 1000000\<rparr>, seller = ''alice'',
             buyer = ''bob'', seller_is_set = True, buyer_is_set = True\<rparr>, [])"
    by (simp add: entry_defs)
  have r: "resolving (Received \<lparr>item_id = 1\<rparr>)"
    by simp
  have d: "dispatch (Received \<lparr>item_id = 1\<rparr>) \<lparr>sender = ''bob'', amount = 0\<rparr>
       \<lparr>product = \<lparr>item_id = 1, price = 1000000\<rparr>, seller = ''alice'',
        buyer = ''bob'', seller_is_set = True, buyer_is_set = True\<rparr>
     = Inr (\<lparr>product = \<lparr>item_id = 0, price = 0\<rparr>, seller = ''alice'',
             buyer = ''bob'', seller_is_set = False, buyer_is_set = False\<rparr>,
            [Transfer ''bob'' 1000000, Transfer ''alice'' 3000000])"
    by (simp add: entry_defs no_product_def)
  have n: "''alice'' \<noteq> default_seller \<and> ''bob'' \<noteq> default_buyer"
    by (simp add: default_seller_def default_buyer_def)
  from reset_keeps_identities
    [where cl = "Received \<lparr>item_id = 1\<rparr>" and ?c3.0 = "\<lparr>sender = ''bob'', amount = 0\<rparr>"
       and ?s2.0 = "\<lparr>product = \<lparr>item_id = 1, price = 1000000\<rparr>, seller = ''alice'',
                    buyer = ''bob'', seller_is_set = True, buyer_is_set = True\<rparr>"
       and ?s3.0 = "\<lparr>product = \<lparr>item_id = 0, price = 0\<rparr>, seller = ''alice'',
                    buyer = ''bob'', seller_is_set = False, buyer_is_set = False\<rparr>"
       and ?ops3.0 = "[Transfer ''bob'' 1000000, Transfer ''alice'' 3000000]"
       and c = "\<lparr>sender = ''bob'', amount = 0\<rparr>"
       and s = "\<lparr>product = \<lparr>item_id = 1, price = 1000000\<rparr>, seller = ''alice'',
                 buyer = ''bob'', seller_is_set = True, buyer_is_set = True\<rparr>"
       and s' = "\<lparr>product = \<lparr>item_id = 0, price = 0\<rparr>, seller = ''alice'',
                  buyer = ''bob'', seller_is_set = False, buyer_is_set = False\<rparr>"
       and ops = "[Transfer ''bob'' 1000000, Transfer ''alice'' 3000000]"
       and p = "\<lparr>item_id = 1, price = 1000000\<rparr>"
       and ?c1.0 = "\<lparr>sender = ''alice'', amount = 2000000\<rparr>"
       and ?s0.0 = init_storage
       and ?s1.0 = "\<lparr>product = \<lparr>item_id = 1, price = 1000000\<rparr>, seller = ''alice'',
                    buyer = default_buyer, seller_is_set = True, buyer_is_set = False\<rparr>"
       and ?ops1.0 = "[]"
       and q = "\<lparr>item_id = 1\<rparr>"
       and ?c2.0 = "\<lparr>sender = ''bob'', amount = 2000000\<rparr>"
       and ?ops2.0 = "[]"]
    a b r d n
  show ?thesis by simp
qed

end
